theory Spec2Isabelle
  imports Complex_Main "HOL-Library.Sublist"
begin

section \<open>Data model of the session manager (src/sessions/manager.js)\<close>

text \<open>
  The manager keeps four containers (\<^verbatim>\<open>sessions\<close>, \<^verbatim>\<open>channels\<close>, \<^verbatim>\<open>qrPromises\<close>,
  \<^verbatim>\<open>connectingChannels\<close>). Beside them the model keeps what the code does to the outside
  and the properties below speak of: the reconnection timers it has scheduled with
  \<^verbatim>\<open>setTimeout\<close>, and the two directory levels it keeps per channel on disk
  (\<^verbatim>\<open>src/channels/<id>\<close> and \<^verbatim>\<open>src/channels/<id>/auth_info\<close>, the persisted credentials).
  Logging has no effect on any of these and is left out. A JavaScript number is an
  \<^typ>\<open>int\<close> where the code counts and a \<^typ>\<open>rat\<close> where it computes with
  \<^verbatim>\<open>Math.pow\<close>; \<^verbatim>\<open>new Date()\<close> is a time stamp (milliseconds) handed to the
  operation. Message texts are written without the accents of the Portuguese originals.
  An \<^verbatim>\<open>async\<close> method called on its own is one state transformer from its call to its
  return. The one place where a caller is suspended for other activity, the QR wait of
  \<^verbatim>\<open>createChannel\<close>, takes as an argument the steps of that activity, in the order in
  which they run.
\<close>

type_synonym channelId = string
type_synonym timestamp = int

datatype error = Error string | TypeError string

fun message :: "error \<Rightarrow> string" where
  "message (Error m) = m"
| "message (TypeError m) = m"

text \<open>A property of a JavaScript object is absent (\<^verbatim>\<open>undefined\<close>), \<^verbatim>\<open>null\<close>, or a value.\<close>

datatype 'a jsval = Undefined | Null | Val 'a

datatype status =
  CREATED | CONNECTING | QRCODE | CONNECTED | RECONNECTING | LOGGED_OUT | FAILED | RESTORING

record channel =
  status :: status
  qrCode :: "string jsval"
  lastSeen :: timestamp
  reconnectAttempts :: "int option"

record waExists =
  wa_exists :: bool
  wa_jid :: string

record sendResult =
  key_id :: string

text \<open>
  The socket is the handle \<^verbatim>\<open>makeWASocket\<close> returns, an object of the Baileys library. The
  model holds what the repository's code observes of it: whether \<^verbatim>\<open>end()\<close> and
  \<^verbatim>\<open>logout()\<close> reject, the authenticated \<^verbatim>\<open>user\<close>, the ready state of \<^verbatim>\<open>ws\<close>, and the
  answers of \<^verbatim>\<open>onWhatsApp\<close> (the first element of the array it resolves to) and
  \<^verbatim>\<open>sendMessage\<close>.
\<close>

record socket =
  sock_id :: nat
  sock_end :: "error + unit"
  sock_logout :: "error + unit"
  sock_user :: "string option"
  sock_readyState :: "nat option"
  onWhatsApp :: "string \<Rightarrow> error + waExists option"
  sendMessage :: "string \<Rightarrow> string \<Rightarrow> error + sendResult option"

record session =
  socket :: socket
  saveCreds :: channelId

datatype promise = Pending | Resolved | Rejected error

type_synonym creds = string

record manager =
  sessions :: "channelId \<rightharpoonup> session"
  channels :: "channelId \<rightharpoonup> channel"
  qrPromises :: "channelId \<rightharpoonup> promise"
  connectingChannels :: "channelId set"
  timers :: "(rat \<times> channelId) list"
  channelDirs :: "channelId set"
  authInfo :: "channelId \<rightharpoonup> creds"

text \<open>The collaborators the manager calls: credential persistence, the version lookup,
  the protocol client and the QR image encoder. Each either throws or returns.\<close>

record env =
  useMultiFileAuthState :: "creds option \<Rightarrow> error + creds"
  fetchLatestBaileysVersion :: "error + nat list"
  makeWASocket :: "nat list \<Rightarrow> creds \<Rightarrow> error + socket"
  toDataURL :: "string \<Rightarrow> error + string"

section \<open>src/services/whatsapp.service.js: number formatting\<close>

text \<open>\<^verbatim>\<open>\D\<close> matches every code unit outside \<^verbatim>\<open>0\<close>..\<^verbatim>\<open>9\<close> (code units 48..57).\<close>

definition isDigit :: "char \<Rightarrow> bool" where
  "isDigit c = (48 \<le> (of_char c :: nat) \<and> (of_char c :: nat) \<le> 57)"

definition startsWith :: "string \<Rightarrow> string \<Rightarrow> bool" where
  "startsWith s p = (take (length p) s = p)"

definition formatWhatsAppNumber :: "string \<Rightarrow> string" where
  "formatWhatsAppNumber number =
     (let cleanNumber = filter isDigit number;
          cleanNumber = (if \<not> startsWith cleanNumber ''55'' then ''55'' @ cleanNumber
                         else cleanNumber)
      in cleanNumber @ ''@s.whatsapp.net'')"

section \<open>src/sessions/manager.js: event handling\<close>

datatype connection = Close | Open | Connecting

text \<open>The update object of a \<^verbatim>\<open>connection.update\<close> event; \<open>statusCode\<close> is
  \<^verbatim>\<open>lastDisconnect?.error?.output?.statusCode\<close>, absent when any link of the chain is.\<close>

record update =
  connection :: "connection option"
  statusCode :: "int option"
  qr :: "string option"

text \<open>\<^verbatim>\<open>DisconnectReason.loggedOut\<close>, a constant of the Baileys library (HTTP-like code 401);
  no property below depends on its value.\<close>

definition loggedOut :: int where
  "loggedOut = 401"

text \<open>\<^verbatim>\<open>{...channel, status: s, lastSeen: new Date()}\<close>: spreading \<^verbatim>\<open>undefined\<close> copies
  nothing, so the other properties stay absent.\<close>

definition spread :: "channel option \<Rightarrow> status \<Rightarrow> timestamp \<Rightarrow> channel" where
  "spread c s now =
     (case c of
        None \<Rightarrow> \<lparr>status = s, qrCode = Undefined, lastSeen = now, reconnectAttempts = None\<rparr>
      | Some ch \<Rightarrow> ch\<lparr>status := s, lastSeen := now\<rparr>)"

fun resolve :: "promise \<Rightarrow> promise" where
  "resolve Pending = Resolved"
| "resolve p = p"

fun reject :: "error \<Rightarrow> promise \<Rightarrow> promise" where
  "reject e Pending = Rejected e"
| "reject e p = p"

definition handleQRCode :: "env \<Rightarrow> timestamp \<Rightarrow> channelId \<Rightarrow> string \<Rightarrow> manager \<Rightarrow> manager" where
  "handleQRCode e now channelId q st =
     (case toDataURL e q of
        Inr qrCodeDataURL \<Rightarrow>
          (let st1 = st\<lparr>channels := (channels st)(channelId \<mapsto>
                        (spread (channels st channelId) QRCODE now)\<lparr>qrCode := Val qrCodeDataURL\<rparr>)\<rparr>
           in case qrPromises st1 channelId of
                Some qrPromise \<Rightarrow>
                  st1\<lparr>qrPromises := (qrPromises st1)(channelId \<mapsto> resolve qrPromise)\<rparr>
              | None \<Rightarrow> st1)
      | Inl err \<Rightarrow>
          (case qrPromises st channelId of
             Some qrPromise \<Rightarrow>
               st\<lparr>qrPromises := (qrPromises st)(channelId \<mapsto> reject err qrPromise)\<rparr>
           | None \<Rightarrow> st))"

text \<open>\<^verbatim>\<open>channel?.reconnectAttempts || 0\<close>: an absent record, an absent property and
  the number 0 all give 0.\<close>

definition attemptsOf :: "channel option \<Rightarrow> int" where
  "attemptsOf c =
     (case c of
        None \<Rightarrow> 0
      | Some ch \<Rightarrow> (case reconnectAttempts ch of None \<Rightarrow> 0 | Some n \<Rightarrow> if n = 0 then 0 else n))"

text \<open>\<^verbatim>\<open>Math.min(3000 * Math.pow(2, attempts - 1), 60000)\<close>\<close>

definition backoffDelay :: "int \<Rightarrow> rat" where
  "backoffDelay attempts = min (3000 * power_int 2 (attempts - 1)) 60000"

definition handleConnectionUpdate ::
  "env \<Rightarrow> timestamp \<Rightarrow> channelId \<Rightarrow> update \<Rightarrow> manager \<Rightarrow> manager" where
  "handleConnectionUpdate e now channelId u st =
     (let st1 = (case qr u of
                   Some q \<Rightarrow> if q \<noteq> [] then handleQRCode e now channelId q st else st
                 | None \<Rightarrow> st);
          st2 = (if connection u = Some Close then
                   (let shouldReconnect = (statusCode u \<noteq> Some loggedOut) in
                    if shouldReconnect then
                      (let channel = channels st1 channelId;
                           attempts = attemptsOf channel + 1
                       in if attempts \<le> 5 then
                            st1\<lparr>channels := (channels st1)(channelId \<mapsto>
                                   (spread channel RECONNECTING now)
                                     \<lparr>reconnectAttempts := Some attempts\<rparr>),
                                timers := timers st1 @ [(backoffDelay attempts, channelId)]\<rparr>
                          else
                            st1\<lparr>channels := (channels st1)(channelId \<mapsto>
                                   (spread channel FAILED now)\<lparr>reconnectAttempts := Some 0\<rparr>)\<rparr>)
                    else
                      st1\<lparr>channels := (channels st1)(channelId \<mapsto>
                             spread (channels st1 channelId) LOGGED_OUT now),
                          sessions := (sessions st1)(channelId := None)\<rparr>)
                 else st1);
          st3 = (if connection u = Some Open then
                   st2\<lparr>channels := (channels st2)(channelId \<mapsto>
                          (spread (channels st2 channelId) CONNECTED now)
                            \<lparr>qrCode := Null, reconnectAttempts := Some 0\<rparr>)\<rparr>
                 else st2);
          st4 = (if connection u = Some Connecting then
                   st3\<lparr>channels := (channels st3)(channelId \<mapsto>
                          spread (channels st3 channelId) CONNECTING now)\<rparr>
                 else st3)
      in st4)"

section \<open>src/sessions/manager.js: starting, closing and regenerating\<close>

text \<open>The \<^verbatim>\<open>finally\<close> block of \<^verbatim>\<open>initializeSession\<close>; it runs on every way out of the
  \<^verbatim>\<open>try\<close>, the early \<^verbatim>\<open>return\<close> of the guard included.\<close>

definition releaseGuard :: "channelId \<Rightarrow> manager \<Rightarrow> manager" where
  "releaseGuard channelId st = st\<lparr>connectingChannels := connectingChannels st - {channelId}\<rparr>"

definition initializeSession ::
  "env \<Rightarrow> channelId \<Rightarrow> bool \<Rightarrow> manager \<Rightarrow> (error + unit) \<times> manager" where
  "initializeSession e channelId forceNew st =
     (if channelId \<in> connectingChannels st then (Inr (), releaseGuard channelId st)
      else
        (let st1 = st\<lparr>connectingChannels := insert channelId (connectingChannels st)\<rparr>;
             \<comment> \<open>an error of \<^verbatim>\<open>socket.end()\<close> is caught; the session is dropped either way\<close>
             st2 = (case sessions st1 channelId of
                      Some existingSession \<Rightarrow>
                        (case sock_end (socket existingSession) of Inl err \<Rightarrow> st1 | Inr _ \<Rightarrow> st1)
                    | None \<Rightarrow> st1);
             st3 = st2\<lparr>sessions := (sessions st2)(channelId := None)\<rparr>;
             st4 = (if forceNew \<and> channelId \<in> dom (authInfo st3)
                    then st3\<lparr>authInfo := (authInfo st3)(channelId := None)\<rparr> else st3)
         in case useMultiFileAuthState e (authInfo st4 channelId) of
              Inl err \<Rightarrow> (Inl err, releaseGuard channelId st4)
            | Inr state \<Rightarrow>
                (let st5 = st4\<lparr>authInfo := (authInfo st4)(channelId \<mapsto> state)\<rparr>
                 in case fetchLatestBaileysVersion e of
                      Inl err \<Rightarrow> (Inl err, releaseGuard channelId st5)
                    | Inr version \<Rightarrow>
                        (case makeWASocket e version state of
                           Inl err \<Rightarrow> (Inl err, releaseGuard channelId st5)
                         | Inr sock \<Rightarrow>
                             (Inr (), releaseGuard channelId
                                (st5\<lparr>sessions := (sessions st5)(channelId \<mapsto>
                                        \<lparr>socket = sock, saveCreds = channelId\<rparr>)\<rparr>))))))"

definition getChannelStatus :: "channelId \<Rightarrow> manager \<Rightarrow> (channelId \<times> channel) option" where
  "getChannelStatus channelId st =
     (case channels st channelId of None \<Rightarrow> None | Some c \<Rightarrow> Some (channelId, c))"

definition getSocket :: "channelId \<Rightarrow> manager \<Rightarrow> socket option" where
  "getSocket channelId st =
     (case sessions st channelId of None \<Rightarrow> None | Some s \<Rightarrow> Some (socket s))"

definition isChannelConnected :: "channelId \<Rightarrow> manager \<Rightarrow> bool" where
  "isChannelConnected channelId st =
     (case channels st channelId of None \<Rightarrow> False | Some channel \<Rightarrow> status channel = CONNECTED)"

text \<open>\<^verbatim>\<open>closeChannel\<close>: the two deletions stand inside the \<^verbatim>\<open>try\<close>, after the awaited
  \<^verbatim>\<open>logout()\<close>; the \<^verbatim>\<open>catch\<close> logs and returns.\<close>

definition closeChannel :: "channelId \<Rightarrow> manager \<Rightarrow> (error + unit) \<times> manager" where
  "closeChannel channelId st =
     (let removed = st\<lparr>sessions := (sessions st)(channelId := None),
                        channels := (channels st)(channelId := None)\<rparr>
      in case sessions st channelId of
           Some session \<Rightarrow>
             (case sock_logout (socket session) of
                Inl err \<Rightarrow> (Inr (), st)
              | Inr _ \<Rightarrow> (Inr (), removed))
         | None \<Rightarrow> (Inr (), removed))"

record channelData =
  cd_channelId :: channelId
  cd_status :: "status option"
  cd_qrCode :: "string jsval"

definition regenerateQRCode :: "env \<Rightarrow> channelId \<Rightarrow> manager \<Rightarrow> (error + channelData) \<times> manager" where
  "regenerateQRCode e channelId st =
     (let \<comment> \<open>an error of \<^verbatim>\<open>socket.end()\<close> is caught\<close>
          st1 = (case sessions st channelId of
                   Some session \<Rightarrow>
                     (case sock_end (socket session) of Inl err \<Rightarrow> st | Inr _ \<Rightarrow> st)
                 | None \<Rightarrow> st);
          st2 = st1\<lparr>sessions := (sessions st1)(channelId := None)\<rparr>
      in case initializeSession e channelId True st2 of
           (Inl err, st3) \<Rightarrow> (Inl err, st3)
         | (Inr _, st3) \<Rightarrow>
             (Inr \<lparr>cd_channelId = channelId,
                   cd_status = map_option status (channels st3 channelId),
                   cd_qrCode = (case channels st3 channelId of
                                  None \<Rightarrow> Undefined | Some c \<Rightarrow> qrCode c)\<rparr>, st3))"

section \<open>src/sessions/manager.js: creating a channel\<close>

text \<open>
  What runs on the manager while \<^verbatim>\<open>createChannel\<close> is suspended in its QR wait, each
  step from one suspension point to the next:
  \<^item> \<open>QRCodeEncoded\<close>: the listener of \<^verbatim>\<open>connection.update\<close> is an \<^verbatim>\<open>async\<close> function
    that nobody awaits. For an update with a \<^verbatim>\<open>qr\<close> it suspends in \<^verbatim>\<open>handleQRCode\<close> at
    \<^verbatim>\<open>await QRCode.toDataURL(qr)\<close> before it has touched the state, so updates that
    arrive later can be handled first. This step is \<^verbatim>\<open>handleQRCode\<close> resuming once the
    image is encoded (or the encoder has failed).
  \<^item> \<open>ConnectionBranches\<close>: the rest of the handler, the three \<^verbatim>\<open>if (connection === ...)\<close>
    blocks. For an update without \<^verbatim>\<open>qr\<close> this is the whole handler; for one with
    \<^verbatim>\<open>qr\<close> it follows the \<open>QRCodeEncoded\<close> step of the same update.
  \<^item> \<open>TimerFired\<close>: a reconnection timer fires; its callback drops the session and calls
    \<^verbatim>\<open>initializeSession(channelId)\<close>.
  \<^item> \<open>CloseChannel\<close>, \<open>RegenerateQRCode\<close>: another request calls \<^verbatim>\<open>closeChannel\<close>
    (route \<^verbatim>\<open>DELETE /channels/:channelId\<close>) or \<^verbatim>\<open>regenerateQRCode\<close> (route
    \<^verbatim>\<open>POST /channels/:channelId/qrcode\<close>); both routes only ask for a record to exist,
    which it does from the start of the wait.

  \<^verbatim>\<open>restoreSession\<close> is not among the steps: server.js awaits every restore before the
  server listens, so none overlaps a request. A second \<^verbatim>\<open>createChannel\<close> overlapping the
  wait is not among them either.
\<close>

datatype occurrence =
    QRCodeEncoded timestamp channelId string
  | ConnectionBranches timestamp channelId update
  | TimerFired channelId
  | CloseChannel channelId
  | RegenerateQRCode channelId

fun occur :: "env \<Rightarrow> occurrence \<Rightarrow> manager \<Rightarrow> manager" where
  "occur e (QRCodeEncoded now channelId q) st = handleQRCode e now channelId q st"
| "occur e (ConnectionBranches now channelId u) st =
     handleConnectionUpdate e now channelId (u\<lparr>qr := None\<rparr>) st"
| "occur e (TimerFired channelId) st =
     snd (initializeSession e channelId False (st\<lparr>sessions := (sessions st)(channelId := None)\<rparr>))"
| "occur e (CloseChannel channelId) st = snd (closeChannel channelId st)"
| "occur e (RegenerateQRCode channelId) st = snd (regenerateQRCode e channelId st)"

fun occurAll :: "env \<Rightarrow> occurrence list \<Rightarrow> manager \<Rightarrow> manager" where
  "occurAll e [] st = st"
| "occurAll e (x # xs) st = occurAll e xs (occur e x st)"

text \<open>The steps of one handler run that nothing interrupts.\<close>

definition handlerSteps :: "timestamp \<Rightarrow> channelId \<Rightarrow> update \<Rightarrow> occurrence list" where
  "handlerSteps now channelId u =
     (case qr u of
        Some q \<Rightarrow>
          if q \<noteq> [] then [QRCodeEncoded now channelId q, ConnectionBranches now channelId u]
          else [ConnectionBranches now channelId u]
      | None \<Rightarrow> [ConnectionBranches now channelId u])"

text \<open>\<^verbatim>\<open>Promise.race([qrPromise, timeout])\<close> at the moment \<^verbatim>\<open>createChannel\<close> resumes: the QR
  promise wins if it was settled meanwhile, otherwise the 15 seconds are over and the timer
  rejects.\<close>

definition pairingRace :: "promise option \<Rightarrow> error + unit" where
  "pairingRace p =
     (case p of
        Some Resolved \<Rightarrow> Inr ()
      | Some (Rejected err) \<Rightarrow> Inl err
      | _ \<Rightarrow> Inl (Error ''Timeout aguardando QR Code''))"

text \<open>The first half of \<^verbatim>\<open>createChannel\<close>, up to the call of \<^verbatim>\<open>initializeSession\<close>: the
  channel directory, the \<^verbatim>\<open>CREATED\<close> record and the pending QR promise.\<close>

definition registerChannel :: "timestamp \<Rightarrow> channelId \<Rightarrow> manager \<Rightarrow> manager" where
  "registerChannel now channelId st =
     st\<lparr>channelDirs := insert channelId (channelDirs st),
        channels := (channels st)(channelId \<mapsto>
          \<lparr>status = CREATED, qrCode = Null, lastSeen = now, reconnectAttempts = None\<rparr>),
        qrPromises := (qrPromises st)(channelId \<mapsto> Pending)\<rparr>"

text \<open>\<^verbatim>\<open>createChannel\<close>; \<open>during\<close> holds the steps that run between the start of the wait
  and the moment the call resumes.\<close>

definition createChannel ::
  "env \<Rightarrow> timestamp \<Rightarrow> channelId \<Rightarrow> occurrence list \<Rightarrow> manager
     \<Rightarrow> (error + channelData) \<times> manager" where
  "createChannel e now channelId during st =
     (if channelId \<in> dom (channels st) then
        (Inl (Error ''Canal ja existe''), st\<lparr>qrPromises := (qrPromises st)(channelId := None)\<rparr>)
      else
        (case initializeSession e channelId True (registerChannel now channelId st) of
           (Inl err, st2) \<Rightarrow>
             (Inl err, st2\<lparr>qrPromises := (qrPromises st2)(channelId := None)\<rparr>)
         | (Inr _, st2) \<Rightarrow>
             (let st3 = occurAll e during st2;
                  \<comment> \<open>either outcome of the race goes on: the \<^verbatim>\<open>catch\<close> only logs\<close>
                  st4 = (case pairingRace (qrPromises st3 channelId) of
                           Inl timeoutError \<Rightarrow> st3 | Inr _ \<Rightarrow> st3);
                  st5 = st4\<lparr>qrPromises := (qrPromises st4)(channelId := None)\<rparr>
              in case channels st5 channelId of
                   None \<Rightarrow>
                     (Inl (TypeError ''Cannot read properties of undefined (reading 'status')''),
                      st5)
                 | Some c \<Rightarrow>
                     (Inr \<lparr>cd_channelId = channelId, cd_status = Some (status c),
                           cd_qrCode = qrCode c\<rparr>, st5))))"

section \<open>src/routes/channels.routes.js: POST /channels/:channelId/qrcode\<close>

record response =
  res_status :: nat
  res_success :: bool
  res_error :: "string option"
  res_message :: "string option"
  res_data :: "channelData option"

definition post_qrcode :: "env \<Rightarrow> channelId \<Rightarrow> manager \<Rightarrow> response \<times> manager" where
  "post_qrcode e channelId st =
     (case getChannelStatus channelId st of
        None \<Rightarrow>
          (\<lparr>res_status = 404, res_success = False, res_error = Some ''CHANNEL_NOT_FOUND'',
            res_message = Some ''Canal nao encontrado'', res_data = None\<rparr>, st)
      | Some (_, channelStatus) \<Rightarrow>
          if status channelStatus = CONNECTED then
            (\<lparr>res_status = 400, res_success = False,
              res_error = Some ''CHANNEL_ALREADY_CONNECTED'',
              res_message = Some ''Canal ja esta conectado'', res_data = None\<rparr>, st)
          else
            (case regenerateQRCode e channelId st of
               (Inl err, st') \<Rightarrow>
                 (\<lparr>res_status = 500, res_success = False, res_error = Some ''INTERNAL_ERROR'',
                   res_message = Some (message err), res_data = None\<rparr>, st')
             | (Inr newChannelData, st') \<Rightarrow>
                 (\<lparr>res_status = 200, res_success = True, res_error = None,
                   res_message = None, res_data = Some newChannelData\<rparr>, st')))"

section \<open>src/services/whatsapp.service.js: sending a text message\<close>

datatype socketCall = CallOnWhatsApp string | CallSendMessage string string

text \<open>The service object holds \<^verbatim>\<open>lastMessageTime\<close>; \<open>calls\<close> records the requests it has
  made on sockets, in order.\<close>

record service =
  lastMessageTime :: "channelId \<rightharpoonup> timestamp"
  calls :: "socketCall list"

record sendOutcome =
  so_success :: bool
  so_messageId :: string
  so_to :: string
  so_message :: string

definition MIN_DELAY_MS :: int where
  "MIN_DELAY_MS = 1000"

text \<open>\<^verbatim>\<open>applyMessageDelay\<close> only waits; the value is the time at which it returns.\<close>

definition applyMessageDelay :: "timestamp \<Rightarrow> channelId \<Rightarrow> service \<Rightarrow> timestamp" where
  "applyMessageDelay now channelId svc =
     (case lastMessageTime svc channelId of
        None \<Rightarrow> now
      | Some lastTime \<Rightarrow>
          if lastTime \<noteq> 0 then
            (let elapsed = now - lastTime
             in if elapsed < MIN_DELAY_MS then now + (MIN_DELAY_MS - elapsed) else now)
          else now)"

definition str_includes :: "string \<Rightarrow> string \<Rightarrow> bool" where
  "str_includes s sub = sublist sub s"

text \<open>The outer \<^verbatim>\<open>catch\<close> of \<^verbatim>\<open>sendTextMessage\<close>: every error thrown inside the \<^verbatim>\<open>try\<close>
  passes through it on its way to the caller.\<close>

definition rethrow :: "error \<Rightarrow> error" where
  "rethrow err =
     (if str_includes (message err) ''not-authorized'' \<or> str_includes (message err) ''Connection Closed''
      then Error ''CHANNEL_NOT_CONNECTED'' else err)"

definition sendTextMessage ::
  "timestamp \<Rightarrow> channelId \<Rightarrow> string \<Rightarrow> string \<Rightarrow> manager \<Rightarrow> service
     \<Rightarrow> (error + sendOutcome) \<times> service" where
  "sendTextMessage now channelId to msg m svc =
     (if \<not> isChannelConnected channelId m then
        (Inl (rethrow (Error ''CHANNEL_NOT_CONNECTED'')), svc)
      else
        (case getSocket channelId m of
           None \<Rightarrow> (Inl (rethrow (Error ''CHANNEL_NOT_CONNECTED'')), svc)
         | Some sock \<Rightarrow>
             if sock_user sock = None then
               (Inl (rethrow (Error ''CHANNEL_NOT_CONNECTED'')), svc)
             else
               (let t = applyMessageDelay now channelId svc;
                    formattedNumber = formatWhatsAppNumber to;
                    svc1 = svc\<lparr>calls := calls svc @ [CallOnWhatsApp formattedNumber]\<rparr>
                in case onWhatsApp sock formattedNumber of
                     Inl verifyError \<Rightarrow> (Inl (rethrow verifyError), svc1)
                   | Inr None \<Rightarrow> (Inl (rethrow (Error ''INVALID_WHATSAPP_NUMBER'')), svc1)
                   | Inr (Some ex) \<Rightarrow>
                       if \<not> wa_exists ex then
                         (Inl (rethrow (Error ''INVALID_WHATSAPP_NUMBER'')), svc1)
                       else
                         (let jid = wa_jid ex;
                              svc2 = svc1\<lparr>calls := calls svc1 @ [CallSendMessage jid msg]\<rparr>
                          in case sendMessage sock jid msg of
                               Inl verifyError \<Rightarrow> (Inl (rethrow verifyError), svc2)
                             | Inr result \<Rightarrow>
                                 (let svc3 = svc2\<lparr>lastMessageTime :=
                                               (lastMessageTime svc2)(channelId \<mapsto> t)\<rparr>
                                  in case result of
                                       None \<Rightarrow>
                                         (Inl (rethrow (TypeError
                                            ''Cannot read properties of undefined (reading 'key')'')),
                                          svc3)
                                     | Some r \<Rightarrow>
                                         (Inr \<lparr>so_success = True, so_messageId = key_id r,
                                               so_to = jid, so_message = msg\<rparr>, svc3))))))"

section \<open>Notions used to state the properties\<close>

text \<open>The \<^verbatim>\<open>reconnectAttempts\<close> property as stored: absent when there is no record or
  the record has no such property.\<close>

definition storedAttempts :: "channel option \<Rightarrow> int option" where
  "storedAttempts c = (case c of None \<Rightarrow> None | Some ch \<Rightarrow> reconnectAttempts ch)"

definition attemptsInRange :: "manager \<Rightarrow> bool" where
  "attemptsInRange st =
     (\<forall>cid n. storedAttempts (channels st cid) = Some n \<longrightarrow> 0 \<le> n \<and> n \<le> 5)"

text \<open>A step that brings a QR code for the channel, and a step that closes the channel.\<close>

fun carriesQR :: "channelId \<Rightarrow> occurrence \<Rightarrow> bool" where
  "carriesQR cid (QRCodeEncoded now c q) = (c = cid)"
| "carriesQR cid x = False"

fun closesChannel :: "channelId \<Rightarrow> occurrence \<Rightarrow> bool" where
  "closesChannel cid (CloseChannel c) = (c = cid)"
| "closesChannel cid x = False"

text \<open>The manager as its constructor leaves it, and sample collaborators for the
  concrete instances below.\<close>

definition newSessionManager :: manager where
  "newSessionManager =
     \<lparr>sessions = Map.empty, channels = Map.empty, qrPromises = Map.empty,
      connectingChannels = {}, timers = [], channelDirs = {}, authInfo = Map.empty\<rparr>"

definition sampleSocket :: socket where
  "sampleSocket =
     \<lparr>sock_id = 1, sock_end = Inr (), sock_logout = Inr (),
      sock_user = Some ''5511988887777:1@s.whatsapp.net'', sock_readyState = Some 1,
      onWhatsApp = (\<lambda>n. Inr (Some \<lparr>wa_exists = True, wa_jid = n\<rparr>)),
      sendMessage = (\<lambda>jid text. Inr (Some \<lparr>key_id = ''3EB0''\<rparr>))\<rparr>"

definition sampleEnv :: env where
  "sampleEnv =
     \<lparr>useMultiFileAuthState = (\<lambda>c. Inr (case c of None \<Rightarrow> ''fresh'' | Some x \<Rightarrow> x)),
      fetchLatestBaileysVersion = Inr [2, 3000, 1],
      makeWASocket = (\<lambda>version state. Inr sampleSocket),
      toDataURL = (\<lambda>q. Inr (''data:image/png;base64,'' @ q))\<rparr>"

definition sampleChannel :: "status \<Rightarrow> int option \<Rightarrow> channel" where
  "sampleChannel s n = \<lparr>status = s, qrCode = Null, lastSeen = 0, reconnectAttempts = n\<rparr>"

text \<open>A socket whose \<^verbatim>\<open>logout()\<close> rejects, and a manager with one connected channel
  \<^verbatim>\<open>acme\<close> on a given socket.\<close>

definition rejectingSocket :: socket where
  "rejectingSocket = sampleSocket\<lparr>sock_logout := Inl (Error ''Connection Closed'')\<rparr>"

definition connectedManager :: "socket \<Rightarrow> manager" where
  "connectedManager sock =
     newSessionManager
       \<lparr>sessions := [''acme'' \<mapsto> \<lparr>socket = sock, saveCreds = ''acme''\<rparr>],
        channels := [''acme'' \<mapsto> sampleChannel CONNECTED (Some 0)]\<rparr>"

section \<open>Properties of number formatting\<close>

lemma of_char_digit:
  assumes "48 \<le> (of_char c :: nat)" and "(of_char c :: nat) \<le> 57"
  shows "c \<in> set ''0123456789''"
proof -
  have "(of_char c :: nat) = of_char CHR ''0'' \<or> (of_char c :: nat) = of_char CHR ''1''
      \<or> (of_char c :: nat) = of_char CHR ''2'' \<or> (of_char c :: nat) = of_char CHR ''3''
      \<or> (of_char c :: nat) = of_char CHR ''4'' \<or> (of_char c :: nat) = of_char CHR ''5''
      \<or> (of_char c :: nat) = of_char CHR ''6'' \<or> (of_char c :: nat) = of_char CHR ''7''
      \<or> (of_char c :: nat) = of_char CHR ''8'' \<or> (of_char c :: nat) = of_char CHR ''9''"
    using assms by simp arith
  then have "c = CHR ''0'' \<or> c = CHR ''1'' \<or> c = CHR ''2'' \<or> c = CHR ''3'' \<or> c = CHR ''4''
      \<or> c = CHR ''5'' \<or> c = CHR ''6'' \<or> c = CHR ''7'' \<or> c = CHR ''8'' \<or> c = CHR ''9''"
    by (simp only: of_char_eq_iff)
  then show ?thesis by auto
qed

lemma isDigit_iff: "isDigit c \<longleftrightarrow> c \<in> set ''0123456789''"
  using of_char_digit[of c] by (auto simp: isDigit_def)

lemma suffix_has_no_digit: "filter isDigit ''@s.whatsapp.net'' = []"
  by (simp add: isDigit_def)

lemma startsWith_prefix: "startsWith s p \<longleftrightarrow> prefix p s"
  by (auto simp: startsWith_def prefix_def) (metis append_take_drop_id)

lemma if_swap: "(if \<not> b then x else y) = (if b then y else x)"
  by simp

lemma digits_filter: "filter isDigit n = filter (\<lambda>c. c \<in> set ''0123456789'') n"
  by (rule filter_cong) (simp_all only: isDigit_iff)

lemma formatWhatsAppNumber_twice:
  "formatWhatsAppNumber (formatWhatsAppNumber n) = formatWhatsAppNumber n"
proof -
  define d where "d = filter isDigit n"
  define c where "c = (if \<not> startsWith d ''55'' then ''55'' @ d else d)"
  have fd: "filter isDigit d = d"
    by (simp add: d_def)
  have f55: "filter isDigit ''55'' = ''55''"
    by (simp add: isDigit_def)
  have fc: "filter isDigit c = c"
    by (cases "startsWith d ''55''")
       (simp_all only: c_def fd f55 filter_append if_True if_False not_True_eq_False
          not_False_eq_True)
  have sc: "startsWith c ''55''"
    by (cases "startsWith d ''55''") (simp_all add: c_def startsWith_prefix)
  have once: "formatWhatsAppNumber n = c @ ''@s.whatsapp.net''"
    by (simp only: formatWhatsAppNumber_def Let_def c_def d_def)
  have "filter isDigit (c @ ''@s.whatsapp.net'') = c"
    by (simp only: filter_append fc suffix_has_no_digit append_Nil2)
  then have "formatWhatsAppNumber (c @ ''@s.whatsapp.net'') = c @ ''@s.whatsapp.net''"
    using sc by (simp only: formatWhatsAppNumber_def Let_def if_False simp_thms)
  then show ?thesis
    by (simp only: once)
qed

lemma formatWhatsAppNumber_shape:
  "formatWhatsAppNumber n =
     (let ds = filter (\<lambda>c. c \<in> set ''0123456789'') n
      in (if prefix ''55'' ds then ds else ''55'' @ ds) @ ''@s.whatsapp.net'')"
  unfolding formatWhatsAppNumber_def Let_def startsWith_prefix digits_filter if_swap
  by (rule refl)

text \<open>
  C10. \<^verbatim>\<open>formatWhatsAppNumber\<close> is idempotent: formatting a formatted number gives the same
  string again. Its output is the decimal digits of the input, in order, with \<^verbatim>\<open>55\<close> put in
  front when they do not already begin with \<^verbatim>\<open>55\<close>, followed by \<^verbatim>\<open>@s.whatsapp.net\<close>.
\<close>

theorem formatWhatsAppNumber_idempotent:
  "formatWhatsAppNumber (formatWhatsAppNumber n) = formatWhatsAppNumber n \<and>
   formatWhatsAppNumber n =
     (let ds = filter (\<lambda>c. c \<in> set ''0123456789'') n
      in (if prefix ''55'' ds then ds else ''55'' @ ds) @ ''@s.whatsapp.net'')"
  using formatWhatsAppNumber_twice formatWhatsAppNumber_shape by (rule conjI)

section \<open>Properties of the connection event handler\<close>

lemma attemptsOf_stored:
  "attemptsOf c = (case storedAttempts c of None \<Rightarrow> 0 | Some n \<Rightarrow> n)"
  by (simp add: attemptsOf_def storedAttempts_def split: option.splits)

lemma spread_attempts [simp]: "reconnectAttempts (spread c s now) = storedAttempts c"
  by (simp add: spread_def storedAttempts_def split: option.splits)

lemma spread_status [simp]: "status (spread c s now) = s"
  by (simp add: spread_def split: option.splits)

lemma handleQRCode_frame:
  "sessions (handleQRCode e now cid q st) = sessions st"
  "timers (handleQRCode e now cid q st) = timers st"
  "connectingChannels (handleQRCode e now cid q st) = connectingChannels st"
  "authInfo (handleQRCode e now cid q st) = authInfo st"
  "channelDirs (handleQRCode e now cid q st) = channelDirs st"
  by (simp_all add: handleQRCode_def Let_def split: sum.splits option.splits)

lemma handleQRCode_channels:
  "channels (handleQRCode e now cid q st) =
     (case toDataURL e q of
        Inr url \<Rightarrow>
          (channels st)(cid \<mapsto> (spread (channels st cid) QRCODE now)\<lparr>qrCode := Val url\<rparr>)
      | Inl err \<Rightarrow> channels st)"
  by (simp add: handleQRCode_def Let_def split: sum.splits option.splits)

lemma handleQRCode_stored:
  "storedAttempts (channels (handleQRCode e now cid q st) c) = storedAttempts (channels st c)"
  by (cases "toDataURL e q") (simp_all add: handleQRCode_channels storedAttempts_def)

lemma handleQRCode_other:
  "c \<noteq> cid \<Longrightarrow> channels (handleQRCode e now cid q st) c = channels st c"
  by (cases "toDataURL e q") (simp_all add: handleQRCode_channels)

lemma qr_stage_stored:
  "storedAttempts (channels (case qr u of None \<Rightarrow> st
        | Some q \<Rightarrow> if q \<noteq> [] then handleQRCode e now cid q st else st) c) =
   storedAttempts (channels st c)"
  by (simp add: handleQRCode_stored split: option.splits)

lemma backoffDelay_nat: "backoffDelay (int k + 1) = min (3000 * 2 ^ k) 60000"
  by (simp add: backoffDelay_def)

text \<open>
  C2. A \<^verbatim>\<open>close\<close> event whose cause is not the logged-out cause, arriving when the channel's
  attempt count is \<open>n\<close> with \<open>0 \<le> n \<le> 4\<close>, sets the status to \<^verbatim>\<open>RECONNECTING\<close>, stores
  \<open>n + 1\<close> as the attempt count and schedules one timer, with a delay of exactly
  \<open>min (3000 * 2 ^ n) 60000\<close> milliseconds: 3000, 6000, 12000, 24000, 48000 for the attempts
  1 to 5.
\<close>

theorem reconnect_backoff:
  assumes "connection u = Some Close" and "statusCode u \<noteq> Some loggedOut"
    and "attemptsOf (channels st cid) = n" and "0 \<le> n" and "n \<le> 4"
  shows "let st' = handleConnectionUpdate e now cid u st
         in (\<exists>ch. channels st' cid = Some ch \<and> status ch = RECONNECTING \<and>
                   reconnectAttempts ch = Some (n + 1))
            \<and> timers st' = timers st @ [(min (3000 * 2 ^ nat n) 60000, cid)]
            \<and> min (3000 * 2 ^ nat n) (60000 :: rat) =
                [3000, 6000, 12000, 24000, 48000] ! nat n"
proof -
  define k where "k = nat n"
  have k: "n = int k" "k \<le> 4"
    using assms(4,5) by (simp_all add: k_def)
  have a: "attemptsOf (channels (handleQRCode e now cid q st) cid) = int k" for q
    using assms(3) k by (simp add: attemptsOf_stored handleQRCode_stored)
  have v: "min (3000 * 2 ^ k) (60000 :: rat) = [3000, 6000, 12000, 24000, 48000] ! k"
  proof -
    from k(2) have "k = 0 \<or> k = 1 \<or> k = 2 \<or> k = 3 \<or> k = 4" by arith
    then show ?thesis by auto
  qed
  show ?thesis
    using assms(1,2,3) k a v
    by (simp add: handleConnectionUpdate_def Let_def handleQRCode_frame backoffDelay_nat
        split: option.splits)
qed

theorem reconnect_backoff_witness:
  "connection \<lparr>connection = Some Close, statusCode = Some 428, qr = None\<rparr> = Some Close \<and>
   statusCode \<lparr>connection = Some Close, statusCode = Some 428, qr = None\<rparr> \<noteq> Some loggedOut \<and>
   attemptsOf (channels (newSessionManager\<lparr>channels :=
       [''acme'' \<mapsto> sampleChannel RECONNECTING (Some 2)]\<rparr>) ''acme'') = 2 \<and>
   (let st' = handleConnectionUpdate sampleEnv 7 ''acme''
                \<lparr>connection = Some Close, statusCode = Some 428, qr = None\<rparr>
                (newSessionManager\<lparr>channels :=
                   [''acme'' \<mapsto> sampleChannel RECONNECTING (Some 2)]\<rparr>)
    in (\<exists>ch. channels st' ''acme'' = Some ch \<and> status ch = RECONNECTING \<and>
              reconnectAttempts ch = Some 3)
       \<and> timers st' = [(12000, ''acme'')])"
  using reconnect_backoff [of "\<lparr>connection = Some Close, statusCode = Some 428, qr = None\<rparr>"
      "newSessionManager\<lparr>channels := [''acme'' \<mapsto> sampleChannel RECONNECTING (Some 2)]\<rparr>"
      "''acme''" 2 sampleEnv 7]
  by (simp add: loggedOut_def attemptsOf_def sampleChannel_def newSessionManager_def Let_def)

text \<open>
  C3. Handling an \<^verbatim>\<open>open\<close> event for a channel leaves a record for it whose status is
  \<^verbatim>\<open>CONNECTED\<close>, whose \<^verbatim>\<open>qrCode\<close> is \<^verbatim>\<open>null\<close> and whose attempt count is 0, whatever the
  record was before and whatever else the update carries.
\<close>

theorem open_sets_connected:
  "\<exists>ch. channels (handleConnectionUpdate e now cid (u\<lparr>connection := Some Open\<rparr>) st) cid = Some ch
      \<and> status ch = CONNECTED \<and> qrCode ch = Null \<and> reconnectAttempts ch = Some 0"
  by (simp add: handleConnectionUpdate_def Let_def)

text \<open>
  C4. Handling a \<^verbatim>\<open>close\<close> event whose cause is the logged-out cause sets the channel's
  status to \<^verbatim>\<open>LOGGED_OUT\<close>, removes the session of that id, schedules no timer and leaves
  the stored attempt count as it was.
\<close>

theorem logged_out_close:
  "let st' = handleConnectionUpdate e now cid
               (u\<lparr>connection := Some Close, statusCode := Some loggedOut\<rparr>) st
   in (\<exists>ch. channels st' cid = Some ch \<and> status ch = LOGGED_OUT \<and>
             reconnectAttempts ch = storedAttempts (channels st cid))
      \<and> sessions st' cid = None \<and> timers st' = timers st"
  by (simp add: handleConnectionUpdate_def Let_def handleQRCode_frame handleQRCode_stored
      split: option.splits)

lemma handleConnectionUpdate_other:
  "c \<noteq> cid \<Longrightarrow> channels (handleConnectionUpdate e now cid u st) c = channels st c"
  by (simp add: handleConnectionUpdate_def Let_def handleQRCode_other split: option.splits)

lemma handleConnectionUpdate_stored:
  "storedAttempts (channels (handleConnectionUpdate e now cid u st) cid) =
     (if connection u = Some Close then
        (if statusCode u \<noteq> Some loggedOut then
           (if attemptsOf (channels st cid) + 1 \<le> 5
            then Some (attemptsOf (channels st cid) + 1) else Some 0)
         else storedAttempts (channels st cid))
      else if connection u = Some Open then Some 0
      else storedAttempts (channels st cid))"
  by (simp add: handleConnectionUpdate_def Let_def handleQRCode_stored attemptsOf_stored
      storedAttempts_def[of "Some _"] split: option.splits)

lemma failed_only_at_limit:
  assumes "channels (handleConnectionUpdate e now cid u st) cid = Some ch"
    and "status ch = FAILED"
  shows "(connection u = Some Close \<and> statusCode u \<noteq> Some loggedOut \<and>
            \<not> attemptsOf (channels st cid) + 1 \<le> 5)
         \<or> (connection u = None \<and> channels st cid = Some ch)"
proof (cases "connection u")
  case None
  then show ?thesis using assms
    by (auto simp add: handleConnectionUpdate_def Let_def handleQRCode_channels
        split: option.splits sum.splits if_splits)
next
  case (Some c)
  then show ?thesis using assms
    by (cases c)
       (auto simp add: handleConnectionUpdate_def Let_def qr_stage_stored attemptsOf_stored
        split: if_splits)
qed

lemma failed_branch:
  assumes "connection u = Some Close" and "statusCode u \<noteq> Some loggedOut"
    and "\<not> attemptsOf (channels st cid) + 1 \<le> 5"
  shows "(\<exists>ch. channels (handleConnectionUpdate e now cid u st) cid = Some ch \<and>
               status ch = FAILED \<and> reconnectAttempts ch = Some 0)
         \<and> timers (handleConnectionUpdate e now cid u st) = timers st"
  using assms
  by (simp add: handleConnectionUpdate_def Let_def handleQRCode_stored attemptsOf_stored
      handleQRCode_frame split: option.splits)

lemma handleConnectionUpdate_attemptsInRange:
  assumes "attemptsInRange st"
  shows "attemptsInRange (handleConnectionUpdate e now cid u st)"
  unfolding attemptsInRange_def
proof (intro allI impI)
  fix c n
  assume s: "storedAttempts (channels (handleConnectionUpdate e now cid u st) c) = Some n"
  have old: "\<And>m. storedAttempts (channels st c) = Some m \<Longrightarrow> 0 \<le> m \<and> m \<le> 5"
    using assms by (simp add: attemptsInRange_def)
  show "0 \<le> n \<and> n \<le> 5"
  proof (cases "c = cid")
    case False
    then show ?thesis using s old by (simp add: handleConnectionUpdate_other)
  next
    case True
    have "0 \<le> attemptsOf (channels st cid)"
      using old True by (simp add: attemptsOf_stored split: option.splits)
    then show ?thesis using s old True
      by (auto simp add: handleConnectionUpdate_stored split: if_splits)
  qed
qed

text \<open>
  C5. The event handler preserves the invariant that every stored attempt count lies
  between 0 and 5. Under that invariant the branch that sets \<^verbatim>\<open>FAILED\<close> is taken exactly
  when a \<^verbatim>\<open>close\<close> event with a cause other than logged-out arrives while the count is 5:
  such an event gives status \<^verbatim>\<open>FAILED\<close>, resets the count to 0 and schedules no timer; and
  a record that shows \<^verbatim>\<open>FAILED\<close> after the handler either comes from that branch or
  is the record as it stood, under an update without a connection state.
\<close>

theorem attempts_bounded_and_failed:
  assumes "attemptsInRange st"
  shows "let st' = handleConnectionUpdate e now cid u st;
             limitReached = (connection u = Some Close \<and> statusCode u \<noteq> Some loggedOut \<and>
                             attemptsOf (channels st cid) = 5)
         in attemptsInRange st'
            \<and> (limitReached \<longrightarrow>
                 (\<exists>ch. channels st' cid = Some ch \<and> status ch = FAILED \<and>
                       reconnectAttempts ch = Some 0) \<and> timers st' = timers st)
            \<and> ((\<exists>ch. channels st' cid = Some ch \<and> status ch = FAILED) \<longrightarrow>
                 limitReached \<or> (connection u = None \<and> channels st' cid = channels st cid))"
proof -
  have le5: "attemptsOf (channels st cid) \<le> 5"
    using assms by (simp add: attemptsInRange_def attemptsOf_stored split: option.splits)
  have a: "attemptsInRange (handleConnectionUpdate e now cid u st)"
    using assms by (rule handleConnectionUpdate_attemptsInRange)
  have b: "(\<exists>ch. channels (handleConnectionUpdate e now cid u st) cid = Some ch \<and>
               status ch = FAILED \<and> reconnectAttempts ch = Some 0)
         \<and> timers (handleConnectionUpdate e now cid u st) = timers st"
    if "connection u = Some Close" "statusCode u \<noteq> Some loggedOut"
       "attemptsOf (channels st cid) = 5"
    using that failed_branch[of u st cid e now] by simp
  have c: "(connection u = Some Close \<and> statusCode u \<noteq> Some loggedOut \<and>
              attemptsOf (channels st cid) = 5)
           \<or> (connection u = None \<and>
               channels (handleConnectionUpdate e now cid u st) cid = channels st cid)"
    if "channels (handleConnectionUpdate e now cid u st) cid = Some ch" "status ch = FAILED" for ch
    using failed_only_at_limit[OF that] le5 that(1) by auto
  show ?thesis
    unfolding Let_def using a b c by blast
qed

theorem attempts_bounded_and_failed_witness:
  "attemptsInRange (newSessionManager\<lparr>channels :=
       [''acme'' \<mapsto> sampleChannel RECONNECTING (Some 5)]\<rparr>) \<and>
   (let st' = handleConnectionUpdate sampleEnv 7 ''acme''
                \<lparr>connection = Some Close, statusCode = Some 428, qr = None\<rparr>
                (newSessionManager\<lparr>channels :=
                   [''acme'' \<mapsto> sampleChannel RECONNECTING (Some 5)]\<rparr>)
    in attemptsInRange st' \<and>
       channels st' ''acme'' = Some (sampleChannel FAILED (Some 0)\<lparr>lastSeen := 7\<rparr>) \<and>
       timers st' = [])"
proof -
  have h: "attemptsInRange (newSessionManager\<lparr>channels :=
       [''acme'' \<mapsto> sampleChannel RECONNECTING (Some 5)]\<rparr>)"
    by (simp add: attemptsInRange_def storedAttempts_def sampleChannel_def newSessionManager_def)
  show ?thesis
    using h attempts_bounded_and_failed [OF h, of sampleEnv 7 "''acme''"
      "\<lparr>connection = Some Close, statusCode = Some 428, qr = None\<rparr>"]
    by (simp add: loggedOut_def attemptsOf_def sampleChannel_def newSessionManager_def Let_def
        handleConnectionUpdate_def spread_def)
qed

section \<open>Properties of regenerating, sending and closing\<close>

text \<open>
  C8. For a channel id without a record, the regenerate operation (the route
  \<^verbatim>\<open>POST /channels/:channelId/qrcode\<close>, the one caller of \<^verbatim>\<open>regenerateQRCode\<close>) answers
  404 \<^verbatim>\<open>CHANNEL_NOT_FOUND\<close> and leaves the whole manager state as it was; no connection
  attempt is started.
\<close>

theorem regenerate_unknown_channel:
  assumes "channels st cid = None"
  shows "post_qrcode e cid st =
           (\<lparr>res_status = 404, res_success = False, res_error = Some ''CHANNEL_NOT_FOUND'',
             res_message = Some ''Canal nao encontrado'', res_data = None\<rparr>, st)"
  using assms by (simp add: post_qrcode_def getChannelStatus_def)

theorem regenerate_unknown_channel_witness:
  "channels newSessionManager ''ghost'' = None \<and>
   post_qrcode sampleEnv ''ghost'' newSessionManager =
     (\<lparr>res_status = 404, res_success = False, res_error = Some ''CHANNEL_NOT_FOUND'',
       res_message = Some ''Canal nao encontrado'', res_data = None\<rparr>, newSessionManager)"
  using regenerate_unknown_channel [of newSessionManager "''ghost''" sampleEnv]
  by (simp add: newSessionManager_def)

text \<open>\<^verbatim>\<open>regenerateQRCode\<close> itself looks for no record: called directly for an unknown id,
  with collaborators that succeed, it starts an attempt and installs a session.\<close>

lemma regenerateQRCode_unknown_id:
  "regenerateQRCode sampleEnv ''ghost'' newSessionManager =
     (Inr \<lparr>cd_channelId = ''ghost'', cd_status = None, cd_qrCode = Undefined\<rparr>,
      newSessionManager\<lparr>sessions := [''ghost'' \<mapsto> \<lparr>socket = sampleSocket, saveCreds = ''ghost''\<rparr>],
                          authInfo := [''ghost'' \<mapsto> ''fresh'']\<rparr>)"
  by (simp add: regenerateQRCode_def initializeSession_def releaseGuard_def sampleEnv_def
      newSessionManager_def Let_def)

text \<open>
  C9. When the channel has no record, or its status is not \<^verbatim>\<open>CONNECTED\<close>,
  \<^verbatim>\<open>sendTextMessage\<close> throws an error with the message \<^verbatim>\<open>CHANNEL_NOT_CONNECTED\<close>, for
  every recipient and text; the service has made no request on a socket and its
  \<^verbatim>\<open>lastMessageTime\<close> is unchanged.
\<close>

theorem sendTextMessage_not_connected:
  assumes "channels m cid = None \<or> (\<exists>c. channels m cid = Some c \<and> status c \<noteq> CONNECTED)"
  shows "sendTextMessage now cid to msg m svc = (Inl (Error ''CHANNEL_NOT_CONNECTED''), svc)"
proof -
  have "\<not> isChannelConnected cid m"
    using assms by (auto simp add: isChannelConnected_def)
  then show ?thesis
    by (simp add: sendTextMessage_def rethrow_def)
qed

theorem sendTextMessage_not_connected_witness:
  "(\<exists>c. channels (newSessionManager\<lparr>channels := [''acme'' \<mapsto> sampleChannel QRCODE None],
             sessions := [''acme'' \<mapsto> \<lparr>socket = sampleSocket, saveCreds = ''acme''\<rparr>]\<rparr>) ''acme''
          = Some c \<and> status c \<noteq> CONNECTED) \<and>
   sendTextMessage 100 ''acme'' ''11988887777'' ''oi''
     (newSessionManager\<lparr>channels := [''acme'' \<mapsto> sampleChannel QRCODE None],
        sessions := [''acme'' \<mapsto> \<lparr>socket = sampleSocket, saveCreds = ''acme''\<rparr>]\<rparr>)
     \<lparr>lastMessageTime = Map.empty, calls = []\<rparr>
   = (Inl (Error ''CHANNEL_NOT_CONNECTED''), \<lparr>lastMessageTime = Map.empty, calls = []\<rparr>)"
  using sendTextMessage_not_connected [of
      "newSessionManager\<lparr>channels := [''acme'' \<mapsto> sampleChannel QRCODE None],
        sessions := [''acme'' \<mapsto> \<lparr>socket = sampleSocket, saveCreds = ''acme''\<rparr>]\<rparr>"
      "''acme''" 100 "''11988887777''" "''oi''" "\<lparr>lastMessageTime = Map.empty, calls = []\<rparr>"]
  by (simp add: newSessionManager_def sampleChannel_def)

text \<open>Where there is no session, or \<^verbatim>\<open>logout()\<close> resolves, \<^verbatim>\<open>closeChannel\<close> removes the
  session and the channel record.\<close>

lemma closeChannel_removes:
  assumes "sessions st cid = None \<or>
           (\<exists>s. sessions st cid = Some s \<and> sock_logout (socket s) = Inr ())"
  shows "closeChannel cid st =
           (Inr (), st\<lparr>sessions := (sessions st)(cid := None),
                        channels := (channels st)(cid := None)\<rparr>)"
  using assms by (auto simp add: closeChannel_def Let_def)

text \<open>Where \<^verbatim>\<open>logout()\<close> rejects, \<^verbatim>\<open>closeChannel\<close> changes nothing.\<close>

lemma closeChannel_logout_rejected:
  assumes "sessions st cid = Some s" and "sock_logout (socket s) = Inl err"
  shows "closeChannel cid st = (Inr (), st)"
  using assms by (simp add: closeChannel_def Let_def)

text \<open>
  C1. \<^verbatim>\<open>closeChannel\<close> at a channel whose socket rejects \<^verbatim>\<open>logout()\<close>: the call returns
  without raising, and both the session and the channel record of the id are still there,
  the state being exactly what it was before the call.
\<close>

theorem closeChannel_logout_rejects:
  "closeChannel ''acme'' (connectedManager rejectingSocket)
     = (Inr (), connectedManager rejectingSocket)
   \<and> sessions (snd (closeChannel ''acme'' (connectedManager rejectingSocket))) ''acme''
       = Some \<lparr>socket = rejectingSocket, saveCreds = ''acme''\<rparr>
   \<and> channels (snd (closeChannel ''acme'' (connectedManager rejectingSocket))) ''acme''
       = Some (sampleChannel CONNECTED (Some 0))"
  by (simp add: closeChannel_def Let_def connectedManager_def rejectingSocket_def
      newSessionManager_def)

text \<open>The guarded call of \<^verbatim>\<open>initializeSession\<close> in general: only the guard set changes,
  and it loses the id.\<close>

lemma initializeSession_guarded:
  assumes "cid \<in> connectingChannels st"
  shows "initializeSession e cid forceNew st =
           (Inr (), st\<lparr>connectingChannels := connectingChannels st - {cid}\<rparr>)"
  using assms by (simp add: initializeSession_def releaseGuard_def)

text \<open>
  C6. \<^verbatim>\<open>initializeSession\<close> called for an id that is marked as starting: the call returns
  at once and touches neither sessions, channels nor credentials, but its \<^verbatim>\<open>finally\<close>
  block takes the id out of \<^verbatim>\<open>connectingChannels\<close>, so the id is no longer marked for the
  call that is still in flight.
\<close>

theorem initializeSession_duplicate_clears_guard:
  "initializeSession sampleEnv ''acme'' False
     (newSessionManager\<lparr>connectingChannels := {''acme''}\<rparr>)
   = (Inr (), newSessionManager)
   \<and> ''acme'' \<notin> connectingChannels (snd (initializeSession sampleEnv ''acme'' False
     (newSessionManager\<lparr>connectingChannels := {''acme''}\<rparr>)))"
  by (simp add: initializeSession_def releaseGuard_def newSessionManager_def)

section \<open>Properties of creating a channel\<close>

lemma releaseGuard_frame [simp]:
  "channels (releaseGuard cid st) = channels st"
  "qrPromises (releaseGuard cid st) = qrPromises st"
  "sessions (releaseGuard cid st) = sessions st"
  "authInfo (releaseGuard cid st) = authInfo st"
  "timers (releaseGuard cid st) = timers st"
  by (simp_all add: releaseGuard_def)

lemma initializeSession_frame:
  "channels (snd (initializeSession e cid f st)) = channels st"
  "qrPromises (snd (initializeSession e cid f st)) = qrPromises st"
  "timers (snd (initializeSession e cid f st)) = timers st"
  by (simp_all add: initializeSession_def Let_def split: sum.splits option.splits)

lemma regenerateQRCode_frame:
  "channels (snd (regenerateQRCode e cid st)) = channels st"
  "qrPromises (snd (regenerateQRCode e cid st)) = qrPromises st"
proof -
  have "snd (regenerateQRCode e cid st) =
          snd (initializeSession e cid True (st\<lparr>sessions := (sessions st)(cid := None)\<rparr>))"
    by (simp add: regenerateQRCode_def Let_def split: prod.splits sum.splits option.splits)
  then show "channels (snd (regenerateQRCode e cid st)) = channels st"
    and "qrPromises (snd (regenerateQRCode e cid st)) = qrPromises st"
    by (simp_all add: initializeSession_frame)
qed

lemma closeChannel_frame:
  "qrPromises (snd (closeChannel cid st)) = qrPromises st"
  "c \<noteq> cid \<Longrightarrow> channels (snd (closeChannel cid st)) c = channels st c"
  by (simp_all add: closeChannel_def Let_def split: option.splits sum.splits)

lemma closeChannel_present:
  "c \<noteq> cid \<Longrightarrow> c \<in> dom (channels st) \<Longrightarrow> c \<in> dom (channels (snd (closeChannel cid st)))"
  by (simp add: domIff closeChannel_frame)

lemma handleQRCode_present:
  "c \<in> dom (channels st) \<Longrightarrow> c \<in> dom (channels (handleQRCode e now cid q st))"
  by (cases "toDataURL e q") (simp_all add: handleQRCode_channels)

lemma handleQRCode_promise_other:
  "c \<noteq> cid \<Longrightarrow> qrPromises (handleQRCode e now cid q st) c = qrPromises st c"
  by (simp add: handleQRCode_def Let_def split: sum.splits option.splits)

lemma handleConnectionUpdate_present:
  "c \<in> dom (channels st) \<Longrightarrow> c \<in> dom (channels (handleConnectionUpdate e now cid u st))"
  by (simp add: handleConnectionUpdate_def Let_def handleQRCode_present split: option.splits)

lemma connectionBranches_promise:
  "qrPromises (handleConnectionUpdate e now cid (u\<lparr>qr := None\<rparr>) st) = qrPromises st"
  by (simp add: handleConnectionUpdate_def Let_def)

text \<open>A handler run that nothing interrupts is the handler as a whole.\<close>

lemma handleConnectionUpdate_steps:
  "handleConnectionUpdate e now cid u st = occurAll e (handlerSteps now cid u) st"
  by (simp add: handleConnectionUpdate_def handlerSteps_def Let_def split: option.splits)

lemma occur_promise:
  assumes "\<not> carriesQR c x"
  shows "qrPromises (occur e x st) c = qrPromises st c"
  using assms
  by (cases x)
     (simp_all add: handleQRCode_promise_other connectionBranches_promise
        initializeSession_frame closeChannel_frame regenerateQRCode_frame)

lemma occur_present:
  assumes "\<not> closesChannel c x" and "c \<in> dom (channels st)"
  shows "c \<in> dom (channels (occur e x st))"
  using assms
  by (cases x)
     (simp_all add: handleQRCode_present handleConnectionUpdate_present
        initializeSession_frame closeChannel_present regenerateQRCode_frame)

lemma occurAll_promise:
  assumes "\<forall>x\<in>set xs. \<not> carriesQR c x"
  shows "qrPromises (occurAll e xs st) c = qrPromises st c"
  using assms by (induction xs arbitrary: st) (simp_all add: occur_promise)

lemma occurAll_present:
  assumes "\<forall>x\<in>set xs. \<not> closesChannel c x" and "c \<in> dom (channels st)"
  shows "c \<in> dom (channels (occurAll e xs st))"
  using assms by (induction xs arbitrary: st) (simp_all add: occur_present)

text \<open>A QR update whose encoding is overtaken by an \<^verbatim>\<open>open\<close> update leaves the status
  \<^verbatim>\<open>QRCODE\<close>.\<close>

lemma qr_update_overtaken_by_open:
  "map_option status (channels (occurAll sampleEnv
       [ConnectionBranches 8 ''acme'' \<lparr>connection = Some Open, statusCode = None, qr = None\<rparr>,
        QRCodeEncoded 9 ''acme'' ''2@abc'']
       newSessionManager) ''acme'') = Some QRCODE"
  by (simp add: handleConnectionUpdate_def handleQRCode_def sampleEnv_def newSessionManager_def
      Let_def)

text \<open>Once \<^verbatim>\<open>initializeSession\<close> has returned for a fresh id, what \<^verbatim>\<open>createChannel\<close> gives
  back is read from the state the steps of the wait have left.\<close>

lemma createChannel_after_wait:
  assumes "channels st cid = None"
    and "initializeSession e cid True (registerChannel now cid st) = (Inr (), st2)"
  shows "createChannel e now cid during st =
           (let st3 = occurAll e during st2;
                st5 = st3\<lparr>qrPromises := (qrPromises st3)(cid := None)\<rparr>
            in case channels st3 cid of
                 None \<Rightarrow>
                   (Inl (TypeError ''Cannot read properties of undefined (reading 'status')''),
                    st5)
               | Some c \<Rightarrow>
                   (Inr \<lparr>cd_channelId = cid, cd_status = Some (status c), cd_qrCode = qrCode c\<rparr>,
                    st5))"
  using assms(1)
  by (simp add: createChannel_def assms(2) Let_def domIff split: sum.splits)

text \<open>Without a step that brings a QR code for the id, the race is lost to the timer.\<close>

lemma createChannel_timeout:
  assumes "channels st cid = None"
    and "initializeSession e cid True (registerChannel now cid st) = (Inr (), st2)"
    and "\<forall>x\<in>set during. \<not> carriesQR cid x"
  shows "pairingRace (qrPromises (occurAll e during st2) cid)
           = Inl (Error ''Timeout aguardando QR Code'')"
proof -
  have "st2 = snd (initializeSession e cid True (registerChannel now cid st))"
    using assms(2) by simp
  then have "qrPromises st2 cid = Some Pending"
    by (simp add: initializeSession_frame registerChannel_def)
  then show ?thesis
    using occurAll_promise[OF assms(3), of e st2] by (simp add: pairingRace_def)
qed

text \<open>Without a step that closes the channel, the record is still there when the call
  resumes, and the call returns its status and \<^verbatim>\<open>qrCode\<close>.\<close>

lemma createChannel_timeout_record_kept:
  assumes "channels st cid = None"
    and "initializeSession e cid True (registerChannel now cid st) = (Inr (), st2)"
    and "\<forall>x\<in>set during. \<not> closesChannel cid x"
  shows "\<exists>c. channels (occurAll e during st2) cid = Some c \<and>
           createChannel e now cid during st =
             (Inr \<lparr>cd_channelId = cid, cd_status = Some (status c), cd_qrCode = qrCode c\<rparr>,
              (occurAll e during st2)
                \<lparr>qrPromises := (qrPromises (occurAll e during st2))(cid := None)\<rparr>)"
proof -
  have "st2 = snd (initializeSession e cid True (registerChannel now cid st))"
    using assms(2) by simp
  then have "cid \<in> dom (channels st2)"
    by (simp add: initializeSession_frame registerChannel_def)
  then have "cid \<in> dom (channels (occurAll e during st2))"
    using occurAll_present[OF assms(3)] by blast
  then obtain c where c: "channels (occurAll e during st2) cid = Some c" by blast
  then show ?thesis
    using createChannel_after_wait[OF assms(1,2), of during] by (simp add: Let_def)
qed

text \<open>
  C7. \<^verbatim>\<open>createChannel\<close> for a fresh id \<^verbatim>\<open>acme\<close>, with no QR code arriving during the wait:
  the race is lost to the 15 second timer and the \<^verbatim>\<open>catch\<close> absorbs that error. When
  \<^verbatim>\<open>closeChannel\<close> has removed the record during the wait, the \<^verbatim>\<open>return\<close> reads
  \<^verbatim>\<open>.status\<close> of a record that is not there and the call fails with a \<^verbatim>\<open>TypeError\<close>; the
  entry of \<^verbatim>\<open>qrPromises\<close> is gone. The same call without the close returns the channel id
  with the status and \<^verbatim>\<open>qrCode\<close> recorded at that moment.
\<close>

theorem createChannel_closed_during_wait:
  "pairingRace (qrPromises (occurAll sampleEnv
       [ConnectionBranches 9 ''acme'' \<lparr>connection = Some Connecting, statusCode = None, qr = None\<rparr>,
        CloseChannel ''acme'']
       (snd (initializeSession sampleEnv ''acme'' True
              (registerChannel 5 ''acme'' newSessionManager)))) ''acme'')
     = Inl (Error ''Timeout aguardando QR Code'')
   \<and> createChannel sampleEnv 5 ''acme''
     [ConnectionBranches 9 ''acme'' \<lparr>connection = Some Connecting, statusCode = None, qr = None\<rparr>,
      CloseChannel ''acme'']
     newSessionManager
   = (Inl (TypeError ''Cannot read properties of undefined (reading 'status')''),
      newSessionManager\<lparr>channelDirs := {''acme''}, authInfo := [''acme'' \<mapsto> ''fresh'']\<rparr>)
   \<and> createChannel sampleEnv 5 ''acme''
     [ConnectionBranches 9 ''acme'' \<lparr>connection = Some Connecting, statusCode = None, qr = None\<rparr>]
     newSessionManager
   = (Inr \<lparr>cd_channelId = ''acme'', cd_status = Some CONNECTING, cd_qrCode = Null\<rparr>,
      newSessionManager\<lparr>channelDirs := {''acme''}, authInfo := [''acme'' \<mapsto> ''fresh''],
        sessions := [''acme'' \<mapsto> \<lparr>socket = sampleSocket, saveCreds = ''acme''\<rparr>],
        channels := [''acme'' \<mapsto> \<lparr>status = CONNECTING, qrCode = Null, lastSeen = 9,
                                   reconnectAttempts = None\<rparr>]\<rparr>)"
  by (simp add: newSessionManager_def sampleEnv_def sampleSocket_def initializeSession_def
      registerChannel_def releaseGuard_def createChannel_def handleConnectionUpdate_def
      closeChannel_def spread_def pairingRace_def Let_def)

end
